theory Spec2Isabelle
  imports Main
begin

section \<open>The dbag data layer: metrics, samples and the metric type registry\<close>

text \<open>
  A shallow embedding of \<^verbatim>\<open>dbag/models.py\<close>. The relational store behind the
  Django models is an explicit state: each table is the list of its rows in the order the
  engine scans them, and every method that reads or writes the store takes the state and
  returns the state it leaves behind. A Python exception is a value of type \<open>error\<close>
  in the left summand of the result; the state returned with it is the state at the
  moment of the raise (the source opens no transaction, so rows written before a raise
  stay written).

  Three things are outside \<^verbatim>\<open>models.py\<close> and are parameters of the model:
  the \<open>slugify\<close> filter of Django, the metric types that get registered, and the
  readings of \<^verbatim>\<open>datetime.datetime.utcnow()\<close>. A metric type reads the
  metric and the store and either raises or returns an integer; it does not write to the
  store. The \<^verbatim>\<open>unique=True\<close> of \<^verbatim>\<open>Metric.slug\<close>, the 64 bits of
  the \<^verbatim>\<open>BigIntegerField\<close> and the automatic primary keys are modelled. What a
  storage engine does with a string longer than the \<^verbatim>\<open>max_length\<close> of its column
  differs from one engine to the next and is not modelled. The models
  \<^verbatim>\<open>Dashboard\<close> and \<^verbatim>\<open>DashboardPanel\<close> have no methods and no part in
  what follows.
\<close>

subsection \<open>Values and rows\<close>

text \<open>The values a \<^verbatim>\<open>JSONField\<close> holds.\<close>

datatype json =
    JNull
  | JBool bool
  | JInt int
  | JStr string
  | JList "json list"
  | JDict "(string \<times> json) list"

text \<open>A naive UTC \<^verbatim>\<open>datetime\<close>, as microseconds since the epoch.\<close>

type_synonym timestamp = int

text \<open>The exceptions that the methods of \<^verbatim>\<open>models.py\<close> raise, each with its message
  or the offending key.\<close>

datatype error =
    Exception string
  | TypeError string
  | KeyError string
  | IndexError string
  | IntegrityError string
  | OverflowError string

text \<open>A row of \<^verbatim>\<open>Metric\<close>: the primary key and the fields of lines 52 to 62.\<close>

record metric =
  metric_id :: nat
  metric_type_label :: string
  metric_properties :: "(string \<times> json) list"
  slug :: string
  label :: string
  description :: "string option"
  unit_label :: string
  unit_label_plural :: string
  do_collect :: bool

text \<open>A row of \<^verbatim>\<open>DatumSample\<close> (lines 90 to 92): \<open>sample_metric_id\<close> is the
  column of the foreign key \<^verbatim>\<open>metric\<close>, \<open>sample_value\<close> the field
  \<^verbatim>\<open>value\<close>.\<close>

record datum_sample =
  sample_id :: nat
  sample_metric_id :: nat
  utc_timestamp :: timestamp
  sample_value :: int

text \<open>The store: both tables, and the next primary key of each.\<close>

record db =
  metric_rows :: "metric list"
  sample_rows :: "datum_sample list"
  metric_seq :: nat
  sample_seq :: nat

text \<open>A registered metric type: \<^verbatim>\<open>metric_type_cls()\<close> followed by
  \<^verbatim>\<open>gather_data_sample(metric)\<close>, which raises or returns the value.\<close>

datatype metric_type =
  MetricType (gather_data_sample: "metric \<Rightarrow> db \<Rightarrow> error + int")

text \<open>\<^verbatim>\<open>MetricManager\<close>: its only attribute is the dictionary
  \<^verbatim>\<open>_registry\<close>.\<close>

record manager =
  registry :: "string \<rightharpoonup> metric_type"

subsection \<open>The storage operations the models use\<close>

text \<open>\<^verbatim>\<open>Metric.objects.create(...)\<close>: the insert fails on a slug that a row
  already has (\<^verbatim>\<open>unique=True\<close>, line 55); otherwise the row gets the next
  primary key and the defaults of the fields that were not passed
  (\<^verbatim>\<open>unit_label\<close> and \<^verbatim>\<open>unit_label_plural\<close> empty,
  \<^verbatim>\<open>do_collect\<close> true).\<close>

definition Metric_objects_create ::
  "string \<Rightarrow> string \<Rightarrow> string \<Rightarrow> string option \<Rightarrow> (string \<times> json) list \<Rightarrow> db
    \<Rightarrow> (error + metric) \<times> db" where
  "Metric_objects_create type_label lbl slg descr props s =
     (if slg \<in> set (map slug (metric_rows s))
      then (Inl (IntegrityError ''column slug is not unique''), s)
      else
        (let m = \<lparr>metric_id = metric_seq s,
                   metric_type_label = type_label,
                   metric_properties = props,
                   slug = slg,
                   label = lbl,
                   description = descr,
                   unit_label = [],
                   unit_label_plural = [],
                   do_collect = True\<rparr>
         in (Inr m, s\<lparr>metric_rows := metric_rows s @ [m],
                       metric_seq := Suc (metric_seq s)\<rparr>)))"

text \<open>\<^verbatim>\<open>DatumSample.objects.create(metric=..., utc_timestamp=..., value=...)\<close>.
  \<^verbatim>\<open>value\<close> is a \<^verbatim>\<open>BigIntegerField\<close> (line 92), a signed column of 64
  bits: the insert of an integer outside \<open>-2^63 .. 2^63 - 1\<close> raises (the
  \<^verbatim>\<open>OverflowError\<close> of the SQLite driver) and writes no row.\<close>

definition DatumSample_objects_create ::
  "metric \<Rightarrow> timestamp \<Rightarrow> int \<Rightarrow> db \<Rightarrow> (error + datum_sample) \<times> db" where
  "DatumSample_objects_create m ts v s =
     (if - (2 ^ 63) \<le> v \<and> v < 2 ^ 63
      then
        (let d = \<lparr>sample_id = sample_seq s,
                   sample_metric_id = metric_id m,
                   utc_timestamp = ts,
                   sample_value = v\<rparr>
         in (Inr d, s\<lparr>sample_rows := sample_rows s @ [d],
                       sample_seq := Suc (sample_seq s)\<rparr>))
      else (Inl (OverflowError ''Python int too large to convert to SQLite INTEGER''), s))"

text \<open>The rows of \<^verbatim>\<open>DatumSample\<close> whose foreign key is the metric, in the
  order of the table: the \<^verbatim>\<open>WHERE\<close> clause of
  \<^verbatim>\<open>DatumSample.objects.filter(metric=m)\<close>.\<close>

definition samples_of :: "metric \<Rightarrow> db \<Rightarrow> datum_sample list" where
  "samples_of m s = filter (\<lambda>d. sample_metric_id d = metric_id m) (sample_rows s)"

text \<open>\<^verbatim>\<open>DatumSample.objects.filter(metric=m)\<close>: the rows of the metric, in the
  order of \<^verbatim>\<open>Meta.ordering = ['-utc_timestamp']\<close> (line 95), latest first. Rows
  with equal timestamps stay in the order of the table.\<close>

definition DatumSample_objects_filter :: "metric \<Rightarrow> db \<Rightarrow> datum_sample list" where
  "DatumSample_objects_filter m s = sort_key (\<lambda>d. - utc_timestamp d) (samples_of m s)"

text \<open>\<^verbatim>\<open>Metric.objects.filter(do_collect=True)\<close>; \<^verbatim>\<open>Metric\<close> declares no
  ordering, so the rows come in the order of the table, which
  \<^verbatim>\<open>Metric.objects.create\<close> keeps in the order of the primary keys.\<close>

definition Metric_objects_filter_do_collect :: "db \<Rightarrow> metric list" where
  "Metric_objects_filter_do_collect s = filter do_collect (metric_rows s)"

subsection \<open>The registry (lines 130 to 140)\<close>

definition register_metric_type :: "manager \<Rightarrow> string \<Rightarrow> metric_type \<Rightarrow> manager" where
  "register_metric_type self lbl mt = self\<lparr>registry := (registry self)(lbl \<mapsto> mt)\<rparr>"

text \<open>\<^verbatim>\<open>dict.pop(label)\<close> with no default raises \<^verbatim>\<open>KeyError\<close> on a
  missing key and leaves the dictionary as it was.\<close>

definition unregister_metric_type :: "manager \<Rightarrow> string \<Rightarrow> (error + unit) \<times> manager" where
  "unregister_metric_type self lbl =
     (case registry self lbl of
        None \<Rightarrow> (Inl (KeyError lbl), self)
      | Some mt \<Rightarrow> (Inr (), self\<lparr>registry := (registry self)(lbl := None)\<rparr>))"

text \<open>\<^verbatim>\<open>dict.get(label)\<close>: the entry or \<^verbatim>\<open>None\<close>, with the manager
  as the call leaves it.\<close>

definition get_metric_type :: "manager \<Rightarrow> string \<Rightarrow> metric_type option \<times> manager" where
  "get_metric_type self lbl = (registry self lbl, self)"

definition get_metric_types :: "manager \<Rightarrow> (string \<rightharpoonup> metric_type) \<times> manager" where
  "get_metric_types self = (registry self, self)"

subsection \<open>The methods of \<^verbatim>\<open>Metric\<close> (lines 64 to 73)\<close>

text \<open>\<^verbatim>\<open>queryset[0]\<close> raises \<^verbatim>\<open>IndexError\<close> when the query has no row.\<close>

definition get_latest_sample :: "metric \<Rightarrow> db \<Rightarrow> error + datum_sample" where
  "get_latest_sample self s =
     (case DatumSample_objects_filter self s of
        [] \<Rightarrow> Inl (IndexError ''list index out of range'')
      | d # ds \<Rightarrow> Inr d)"

text \<open>\<open>now\<close> is what \<^verbatim>\<open>datetime.datetime.utcnow()\<close> returns on line 73. When the
  label is not registered \<^verbatim>\<open>get_metric_type\<close> returns \<^verbatim>\<open>None\<close> and
  the call on line 69 raises \<^verbatim>\<open>TypeError\<close>. An exception of the metric type or
  of the insert leaves the method.\<close>

definition collect_metric ::
  "metric \<Rightarrow> manager \<Rightarrow> timestamp \<Rightarrow> db \<Rightarrow> (error + unit) \<times> manager \<times> db" where
  "collect_metric self mgr now s =
     (case get_metric_type mgr (metric_type_label self) of
        (None, mgr') \<Rightarrow> (Inl (TypeError '''NoneType' object is not callable''), mgr', s)
      | (Some metric_type_cls, mgr') \<Rightarrow>
          (case gather_data_sample metric_type_cls self s of
             Inl e \<Rightarrow> (Inl e, mgr', s)
           | Inr data_value \<Rightarrow>
               (case DatumSample_objects_create self now data_value s of
                  (Inl e, s') \<Rightarrow> (Inl e, mgr', s')
                | (Inr datum_sample, s') \<Rightarrow> (Inr (), mgr', s'))))"

subsection \<open>Creating and collecting metrics (lines 142 to 165)\<close>

text \<open>\<open>slugify\<close> is Django's filter. \<open>slug_arg\<close> and \<open>descr\<close> are \<open>None\<close> when the
  caller omits them; \<open>kwargs\<close> are the extra keyword arguments (the extra positional
  arguments \<^verbatim>\<open>*args\<close> are never read). The test
  \<^verbatim>\<open>not slug\<close> holds of \<^verbatim>\<open>None\<close> and of the empty string; the test of
  line 144 holds exactly when the lookup returns \<^verbatim>\<open>None\<close>, a registered class
  being true.\<close>

definition create_metric ::
  "(string \<Rightarrow> string) \<Rightarrow> manager \<Rightarrow> string \<Rightarrow> string \<Rightarrow> string option \<Rightarrow> string option
    \<Rightarrow> (string \<times> json) list \<Rightarrow> db \<Rightarrow> (error + metric) \<times> manager \<times> db" where
  "create_metric slugify self type_label lbl slug_arg descr kwargs s =
     (case get_metric_type self type_label of
        (None, self') \<Rightarrow>
          (Inl (Exception (''MetricType doesn't exist with label '' @ type_label)), self', s)
      | (Some mt, self') \<Rightarrow>
          (let slg = (case slug_arg of
                        None \<Rightarrow> slugify lbl
                      | Some g \<Rightarrow> if g = [] then slugify lbl else g);
               props = (if kwargs = [] then [] else kwargs);
               (r, s') = Metric_objects_create type_label lbl slg descr props s
           in (r, self', s')))"

text \<open>The loop of \<^verbatim>\<open>collect_metrics\<close> over the rows the query returned. The
  \<open>k\<close>-th call of \<^verbatim>\<open>utcnow()\<close> in the run returns \<open>clock k\<close>. An exception
  leaves the loop.\<close>

fun collect_loop ::
  "manager \<Rightarrow> (nat \<Rightarrow> timestamp) \<Rightarrow> nat \<Rightarrow> metric list \<Rightarrow> db \<Rightarrow> (error + unit) \<times> manager \<times> db" where
  "collect_loop self clock k [] s = (Inr (), self, s)"
| "collect_loop self clock k (m # ms) s =
     (case collect_metric m self (clock k) s of
        (Inl e, self', s') \<Rightarrow> (Inl e, self', s')
      | (Inr u, self', s') \<Rightarrow> collect_loop self' clock (Suc k) ms s')"

definition collect_metrics ::
  "manager \<Rightarrow> (nat \<Rightarrow> timestamp) \<Rightarrow> db \<Rightarrow> (error + unit) \<times> manager \<times> db" where
  "collect_metrics self clock s =
     collect_loop self clock 0 (Metric_objects_filter_do_collect s) s"

subsection \<open>Example registries and stores\<close>

text \<open>The scenario of the specification: a metric type that always returns 5, registered
  under \<^verbatim>\<open>constant_5\<close>, and a metric labelled \<^verbatim>\<open>Users\<close>. The examples
  below instantiate the theorems and the counterexamples.\<close>

definition constant_5 :: metric_type where
  "constant_5 = MetricType (\<lambda>m s. Inr 5)"

text \<open>A stand-in for Django's \<^verbatim>\<open>slugify\<close> on the labels of the examples: it
  lower-cases the capital they use.\<close>

definition example_slugify :: "string \<Rightarrow> string" where
  "example_slugify lbl = map (\<lambda>c. if c = CHR ''U'' then CHR ''u'' else c) lbl"

definition example_manager :: manager where
  "example_manager = \<lparr>registry = [''constant_5'' \<mapsto> constant_5]\<rparr>"

definition users_metric :: metric where
  "users_metric = \<lparr>metric_id = 1, metric_type_label = ''constant_5'',
     metric_properties = [], slug = ''users'', label = ''Users'', description = None,
     unit_label = [], unit_label_plural = [], do_collect = True\<rparr>"

text \<open>A metric whose type label is not in the example registry.\<close>

definition orphan_metric :: metric where
  "orphan_metric = \<lparr>metric_id = 2, metric_type_label = ''gone'',
     metric_properties = [], slug = ''orphan'', label = ''Orphan'', description = None,
     unit_label = [], unit_label_plural = [], do_collect = True\<rparr>"

text \<open>A metric whose collection is paused.\<close>

definition paused_metric :: metric where
  "paused_metric = \<lparr>metric_id = 3, metric_type_label = ''constant_5'',
     metric_properties = [], slug = ''paused'', label = ''Paused'', description = None,
     unit_label = [], unit_label_plural = [], do_collect = False\<rparr>"

definition empty_db :: db where
  "empty_db = \<lparr>metric_rows = [], sample_rows = [], metric_seq = 1, sample_seq = 1\<rparr>"

definition users_db :: db where
  "users_db = \<lparr>metric_rows = [users_metric, paused_metric], sample_rows = [],
     metric_seq = 4, sample_seq = 1\<rparr>"

text \<open>A metric whose type label is not in the example registry, created first (primary
  key 1), and a resolvable metric created after it (primary key 2).\<close>

definition stale_metric :: metric where
  "stale_metric = \<lparr>metric_id = 1, metric_type_label = ''gone'',
     metric_properties = [], slug = ''stale'', label = ''Stale'', description = None,
     unit_label = [], unit_label_plural = [], do_collect = True\<rparr>"

definition signups_metric :: metric where
  "signups_metric = \<lparr>metric_id = 2, metric_type_label = ''constant_5'',
     metric_properties = [], slug = ''signups'', label = ''Signups'', description = None,
     unit_label = [], unit_label_plural = [], do_collect = True\<rparr>"

definition orphan_first_db :: db where
  "orphan_first_db = \<lparr>metric_rows = [stale_metric, signups_metric], sample_rows = [],
     metric_seq = 3, sample_seq = 1\<rparr>"



text \<open>The resolvable metric comes first, the orphan second, and a second resolvable
  metric after the orphan.\<close>

definition visitors_metric :: metric where
  "visitors_metric = \<lparr>metric_id = 4, metric_type_label = ''constant_5'',
     metric_properties = [], slug = ''visitors'', label = ''Visitors'', description = None,
     unit_label = [], unit_label_plural = [], do_collect = True\<rparr>"

definition orphan_middle_db :: db where
  "orphan_middle_db = \<lparr>metric_rows = [users_metric, orphan_metric, visitors_metric],
     sample_rows = [], metric_seq = 5, sample_seq = 1\<rparr>"

text \<open>The store \<open>orphan_middle_db\<close> without the orphan.\<close>

definition no_orphan_db :: db where
  "no_orphan_db = \<lparr>metric_rows = [users_metric, visitors_metric],
     sample_rows = [], metric_seq = 5, sample_seq = 1\<rparr>"

text \<open>Two samples of the \<^verbatim>\<open>Users\<close> metric and one of another metric.\<close>

definition sampled_db :: db where
  "sampled_db = \<lparr>metric_rows = [users_metric, paused_metric],
     sample_rows =
       [\<lparr>sample_id = 1, sample_metric_id = 1, utc_timestamp = 100, sample_value = 5\<rparr>,
        \<lparr>sample_id = 2, sample_metric_id = 3, utc_timestamp = 300, sample_value = 7\<rparr>,
        \<lparr>sample_id = 3, sample_metric_id = 1, utc_timestamp = 200, sample_value = 5\<rparr>],
     metric_seq = 4, sample_seq = 4\<rparr>"

text \<open>A store with a collected metric, the orphan, a paused metric and a second resolvable
  metric, in the order of their primary keys.\<close>

definition mixed_db :: db where
  "mixed_db = \<lparr>metric_rows = [users_metric, orphan_metric, paused_metric, visitors_metric],
     sample_rows = [], metric_seq = 5, sample_seq = 1\<rparr>"

text \<open>Readings of the clock: the \<open>k\<close>-th call of a run returns \<open>1000 + k\<close>.\<close>

definition example_clock :: "nat \<Rightarrow> timestamp" where
  "example_clock k = 1000 + int k"

section \<open>Properties\<close>

subsection \<open>The registry\<close>

text \<open>
  C7. After \<^verbatim>\<open>register_metric_type(label, metric_type)\<close> the lookup of the label
  returns that metric type, also when the label had another one before (the last
  registration wins); after \<^verbatim>\<open>unregister_metric_type(label)\<close>, whether it removed
  an entry or raised \<^verbatim>\<open>KeyError\<close>, the lookup of the label returns \<open>None\<close>.
\<close>

theorem register_then_resolve:
  "fst (get_metric_type (register_metric_type self lbl mt) lbl) = Some mt
   \<and> fst (get_metric_type
            (register_metric_type (register_metric_type self lbl mt0) lbl mt) lbl) = Some mt
   \<and> fst (get_metric_type (snd (unregister_metric_type self lbl)) lbl) = None"
  by (simp add: get_metric_type_def register_metric_type_def unregister_metric_type_def
      split: option.split)

text \<open>
  C8. The lookup of a label that is not in the registry returns \<open>None\<close> and raises
  nothing, and no lookup changes the manager: the registry after
  \<^verbatim>\<open>get_metric_type(label)\<close> is the registry before it.
\<close>

theorem resolve_absent_and_pure:
  assumes "lbl \<notin> dom (registry self)"
  shows "get_metric_type self lbl = (None, self)
         \<and> (\<forall>l. snd (get_metric_type self l) = self)"
  using assms by (simp add: get_metric_type_def dom_def)

theorem resolve_absent_and_pure_witness:
  "''gone'' \<notin> dom (registry example_manager)
   \<and> get_metric_type example_manager ''gone'' = (None, example_manager)
   \<and> (\<forall>l. snd (get_metric_type example_manager l) = example_manager)"
proof -
  have h: "''gone'' \<notin> dom (registry example_manager)"
    by (simp add: example_manager_def)
  from resolve_absent_and_pure [OF h] h show ?thesis by simp
qed

subsection \<open>Creating a metric\<close>

text \<open>
  C4. \<^verbatim>\<open>create_metric\<close> with a type label that is not registered raises the
  exception of line 145, whatever the other arguments are, and leaves the store (and the
  manager) as they were: no \<^verbatim>\<open>Metric\<close> row is written.
\<close>

theorem create_metric_unregistered:
  assumes "registry self type_label = None"
  shows "create_metric slugify self type_label lbl slug_arg descr kwargs s
         = (Inl (Exception (''MetricType doesn't exist with label '' @ type_label)), self, s)"
  using assms by (simp add: create_metric_def get_metric_type_def)

theorem create_metric_unregistered_witness:
  "registry example_manager ''gone'' = None
   \<and> create_metric example_slugify example_manager ''gone'' ''Users'' None None [] users_db
       = (Inl (Exception ''MetricType doesn't exist with label gone''), example_manager, users_db)"
proof -
  have h: "registry example_manager ''gone'' = None"
    by (simp add: example_manager_def)
  from create_metric_unregistered [OF h, of example_slugify "''Users''" None None "[]" users_db] h
  show ?thesis by simp
qed

text \<open>
  C5, as the code has it. With a registered type label, the slug omitted, and no
  \<^verbatim>\<open>Metric\<close> row that already has the slug \<open>slugify lbl\<close>,
  \<^verbatim>\<open>create_metric\<close> appends one row to the table and returns it: its slug is
  \<open>slugify lbl\<close>, its \<^verbatim>\<open>metric_properties\<close> are the extra keyword arguments
  (the empty mapping when there are none), and the type label, label and description are
  the ones passed.
\<close>

theorem create_metric_slug_omitted:
  assumes "registry self type_label = Some mt"
      and "slugify lbl \<notin> set (map slug (metric_rows s))"
  shows "\<exists>m. create_metric slugify self type_label lbl None descr kwargs s
              = (Inr m, self, s\<lparr>metric_rows := metric_rows s @ [m],
                                 metric_seq := Suc (metric_seq s)\<rparr>)
            \<and> slug m = slugify lbl
            \<and> metric_properties m = kwargs
            \<and> metric_type_label m = type_label
            \<and> label m = lbl
            \<and> description m = descr"
  using assms
  by (simp add: create_metric_def get_metric_type_def Metric_objects_create_def Let_def)

theorem create_metric_slug_omitted_witness:
  "registry example_manager ''constant_5'' = Some constant_5
   \<and> example_slugify ''Users'' \<notin> set (map slug (metric_rows empty_db))
   \<and> (\<exists>m. create_metric example_slugify example_manager ''constant_5'' ''Users'' None None []
               empty_db
              = (Inr m, example_manager,
                 empty_db\<lparr>metric_rows := metric_rows empty_db @ [m],
                          metric_seq := Suc (metric_seq empty_db)\<rparr>)
            \<and> slug m = ''users''
            \<and> metric_properties m = [])"
proof -
  have h1: "registry example_manager ''constant_5'' = Some constant_5"
    by (simp add: example_manager_def)
  have h2: "example_slugify ''Users'' \<notin> set (map slug (metric_rows empty_db))"
    by (simp add: empty_db_def)
  have e: "example_slugify ''Users'' = ''users''"
    by (simp add: example_slugify_def)
  from create_metric_slug_omitted
    [where slugify = example_slugify and lbl = "''Users''" and descr = None and kwargs = "[]",
     OF h1 h2] h1 h2 e
  show ?thesis by auto
qed

text \<open>
  C5 as stated fails on a label whose slug a row already has: the type label is
  registered and the slug is omitted, yet the insert violates \<^verbatim>\<open>unique=True\<close> and
  no \<^verbatim>\<open>Metric\<close> is persisted.
\<close>

theorem create_metric_duplicate_slug_counterexample:
  "registry example_manager ''constant_5'' = Some constant_5
   \<and> create_metric example_slugify example_manager ''constant_5'' ''Users'' None None [] users_db
       = (Inl (IntegrityError ''column slug is not unique''), example_manager, users_db)"
  by (simp add: create_metric_def get_metric_type_def Metric_objects_create_def
      example_manager_def example_slugify_def users_db_def users_metric_def paused_metric_def)

subsection \<open>The latest sample\<close>

text \<open>
  C3. For a metric that has at least one \<^verbatim>\<open>DatumSample\<close>,
  \<^verbatim>\<open>get_latest_sample()\<close> returns a row of \<^verbatim>\<open>DatumSample\<close> that belongs to
  the metric and whose \<^verbatim>\<open>utc_timestamp\<close> is the greatest among the samples of the
  metric.
\<close>

theorem get_latest_sample_is_latest:
  assumes "samples_of m s \<noteq> []"
  shows "\<exists>d. get_latest_sample m s = Inr d
             \<and> d \<in> set (sample_rows s)
             \<and> sample_metric_id d = metric_id m
             \<and> (\<forall>d' \<in> set (samples_of m s). utc_timestamp d' \<le> utc_timestamp d)"
proof -
  let ?ys = "DatumSample_objects_filter m s"
  have elems: "set ?ys = set (samples_of m s)"
    by (simp add: DatumSample_objects_filter_def)
  have desc: "sorted (map (\<lambda>d. - utc_timestamp d) ?ys)"
    by (simp add: DatumSample_objects_filter_def)
  from assms elems have "?ys \<noteq> []"
    by (metis set_empty)
  then obtain d ds where ys: "?ys = d # ds"
    by (cases ?ys) auto
  have "d \<in> set (samples_of m s)"
    using elems ys by (metis list.set_intros(1))
  then have mem: "d \<in> set (sample_rows s)" and fk: "sample_metric_id d = metric_id m"
    by (simp_all add: samples_of_def)
  have "\<forall>d' \<in> set (samples_of m s). utc_timestamp d' \<le> utc_timestamp d"
    using desc elems ys by auto
  with mem fk ys show ?thesis
    by (simp add: get_latest_sample_def)
qed

theorem get_latest_sample_is_latest_witness:
  "samples_of users_metric sampled_db \<noteq> []
   \<and> get_latest_sample users_metric sampled_db
       = Inr \<lparr>sample_id = 3, sample_metric_id = 1, utc_timestamp = 200, sample_value = 5\<rparr>
   \<and> (\<exists>d. get_latest_sample users_metric sampled_db = Inr d
          \<and> d \<in> set (sample_rows sampled_db)
          \<and> sample_metric_id d = metric_id users_metric
          \<and> (\<forall>d' \<in> set (samples_of users_metric sampled_db).
                 utc_timestamp d' \<le> utc_timestamp d))"
proof -
  have h: "samples_of users_metric sampled_db \<noteq> []"
    by (simp add: samples_of_def sampled_db_def users_metric_def)
  have v: "get_latest_sample users_metric sampled_db
       = Inr \<lparr>sample_id = 3, sample_metric_id = 1, utc_timestamp = 200, sample_value = 5\<rparr>"
    by (simp add: get_latest_sample_def DatumSample_objects_filter_def samples_of_def
        sampled_db_def users_metric_def)
  from get_latest_sample_is_latest [OF h] h v show ?thesis
    by blast
qed

text \<open>
  C10. For a metric that has no \<^verbatim>\<open>DatumSample\<close>, \<^verbatim>\<open>get_latest_sample()\<close>
  raises \<^verbatim>\<open>IndexError\<close> (the index 0 of an empty query); it does not return
  \<^verbatim>\<open>None\<close>.
\<close>

theorem get_latest_sample_no_samples:
  assumes "samples_of m s = []"
  shows "get_latest_sample m s = Inl (IndexError ''list index out of range'')"
  using assms by (simp add: get_latest_sample_def DatumSample_objects_filter_def)

theorem get_latest_sample_no_samples_witness:
  "samples_of users_metric users_db = []
   \<and> get_latest_sample users_metric users_db = Inl (IndexError ''list index out of range'')"
proof -
  have h: "samples_of users_metric users_db = []"
    by (simp add: samples_of_def users_db_def)
  from get_latest_sample_no_samples [OF h] h show ?thesis
    by simp
qed

subsection \<open>Collecting one metric\<close>

text \<open>
  C2. When the type label of the metric is registered and \<^verbatim>\<open>collect_metric\<close>
  returns without raising, the metric type returned an integer \<open>v\<close> (one that fits the
  column), and the table of samples is the table before the call with exactly one row
  appended: the row of this metric, with the reading of the clock as
  \<^verbatim>\<open>utc_timestamp\<close> and \<open>v\<close> as value. No other row is written; the table of
  metrics and the manager are unchanged.
\<close>

theorem collect_metric_success:
  assumes "registry mgr (metric_type_label m) = Some cls"
      and "collect_metric m mgr now s = (Inr (), mgr', s')"
  shows "\<exists>v. gather_data_sample cls m s = Inr v
             \<and> - (2 ^ 63) \<le> v \<and> v < 2 ^ 63
             \<and> sample_rows s' = sample_rows s @
                  [\<lparr>sample_id = sample_seq s, sample_metric_id = metric_id m,
                    utc_timestamp = now, sample_value = v\<rparr>]
             \<and> metric_rows s' = metric_rows s
             \<and> mgr' = mgr"
proof -
  from assms obtain v where g: "gather_data_sample cls m s = Inr v"
    by (cases "gather_data_sample cls m s")
       (auto simp: collect_metric_def get_metric_type_def)
  from assms g have range: "- (2 ^ 63) \<le> v \<and> v < 2 ^ 63"
    by (auto simp: collect_metric_def get_metric_type_def DatumSample_objects_create_def
        split: if_splits)
  with assms g have "mgr' = mgr"
    and "s' = s\<lparr>sample_rows := sample_rows s @
                  [\<lparr>sample_id = sample_seq s, sample_metric_id = metric_id m,
                    utc_timestamp = now, sample_value = v\<rparr>],
                sample_seq := Suc (sample_seq s)\<rparr>"
    by (simp_all add: collect_metric_def get_metric_type_def DatumSample_objects_create_def
        Let_def)
  with g range show ?thesis by simp
qed

theorem collect_metric_success_witness:
  "registry example_manager (metric_type_label users_metric) = Some constant_5
   \<and> collect_metric users_metric example_manager 1000 users_db
       = (Inr (), example_manager,
          users_db\<lparr>sample_rows := [\<lparr>sample_id = 1, sample_metric_id = 1,
                                       utc_timestamp = 1000, sample_value = 5\<rparr>],
                    sample_seq := 2\<rparr>)
   \<and> (\<exists>v. gather_data_sample constant_5 users_metric users_db = Inr v
          \<and> - (2 ^ 63) \<le> v \<and> v < 2 ^ 63
          \<and> sample_rows (users_db\<lparr>sample_rows := [\<lparr>sample_id = 1, sample_metric_id = 1,
                                       utc_timestamp = 1000, sample_value = 5\<rparr>],
                    sample_seq := 2\<rparr>) = sample_rows users_db @
                  [\<lparr>sample_id = sample_seq users_db, sample_metric_id = metric_id users_metric,
                    utc_timestamp = 1000, sample_value = v\<rparr>])"
proof -
  have h1: "registry example_manager (metric_type_label users_metric) = Some constant_5"
    by (simp add: example_manager_def users_metric_def)
  have h2: "collect_metric users_metric example_manager 1000 users_db
       = (Inr (), example_manager,
          users_db\<lparr>sample_rows := [\<lparr>sample_id = 1, sample_metric_id = 1,
                                       utc_timestamp = 1000, sample_value = 5\<rparr>],
                    sample_seq := 2\<rparr>)"
    by (simp add: collect_metric_def get_metric_type_def DatumSample_objects_create_def
        Let_def example_manager_def users_metric_def users_db_def constant_5_def)
  from collect_metric_success [OF h1 h2] h1 h2 show ?thesis
    by blast
qed

subsection \<open>The collection run\<close>

text \<open>One call of \<^verbatim>\<open>collect_metric\<close> leaves the manager and the table of metrics
  alone; it either raises and leaves the store as it was, or, for a registered label, appends
  one sample of the metric.\<close>

lemma collect_metric_step:
  assumes "collect_metric m mgr now s = (r, mgr', s')"
  shows "mgr' = mgr \<and> metric_rows s' = metric_rows s
         \<and> (case r of
               Inl e \<Rightarrow> s' = s
             | Inr u \<Rightarrow> registry mgr (metric_type_label m) \<noteq> None
                        \<and> (\<exists>d. sample_rows s' = sample_rows s @ [d]
                                \<and> sample_metric_id d = metric_id m))"
  using assms
  by (auto simp: collect_metric_def get_metric_type_def DatumSample_objects_create_def Let_def
      split: option.splits sum.splits if_splits)

lemma samples_of_snoc:
  assumes "sample_rows s' = sample_rows s @ [d]"
  shows "samples_of m s' =
         (if sample_metric_id d = metric_id m then samples_of m s @ [d] else samples_of m s)"
  using assms by (simp add: samples_of_def)

text \<open>The loop never changes the manager or the table of metrics.\<close>

lemma collect_loop_manager:
  "collect_loop self clock k ms s = (r, self', s') \<Longrightarrow> self' = self \<and> metric_rows s' = metric_rows s"
proof (induction ms arbitrary: k s)
  case Nil
  then show ?case by simp
next
  case (Cons m ms)
  obtain r1 self1 s1 where step: "collect_metric m self (clock k) s = (r1, self1, s1)"
    by (cases "collect_metric m self (clock k) s") auto
  from collect_metric_step [OF step]
  have same: "self1 = self" "metric_rows s1 = metric_rows s"
    by simp_all
  show ?case
  proof (cases r1)
    case (Inl e)
    with Cons.prems step same show ?thesis by simp
  next
    case (Inr u)
    with Cons.prems step have "collect_loop self1 clock (Suc k) ms s1 = (r, self', s')"
      by simp
    with Cons.IH [of "Suc k" s1] same show ?thesis by simp
  qed
qed

text \<open>What a run over metrics with distinct primary keys does to the samples: the samples
  of a metric that is not in the list stay as they are, and when the run returns without
  raising, every metric of the list was resolvable and has one sample more.\<close>

lemma collect_loop_samples:
  assumes "collect_loop self clock k ms s = (r, self', s')"
      and "distinct (map metric_id ms)"
  shows "(\<forall>m'. metric_id m' \<notin> metric_id ` set ms \<longrightarrow> samples_of m' s' = samples_of m' s)
         \<and> (r = Inr () \<longrightarrow>
              (\<forall>m' \<in> set ms. registry self (metric_type_label m') \<noteq> None
                 \<and> (\<exists>d. samples_of m' s' = samples_of m' s @ [d])))"
  using assms
proof (induction ms arbitrary: k s)
  case Nil
  then show ?case by simp
next
  case (Cons m ms)
  obtain r1 self1 s1 where step: "collect_metric m self (clock k) s = (r1, self1, s1)"
    by (cases "collect_metric m self (clock k) s") auto
  note st = collect_metric_step [OF step]
  show ?case
  proof (cases r1)
    case (Inl e)
    with Cons.prems step st show ?thesis by auto
  next
    case (Inr u)
    with st obtain d where
      self1: "self1 = self" and
      reg: "registry self (metric_type_label m) \<noteq> None" and
      rows: "sample_rows s1 = sample_rows s @ [d]" and
      fk: "sample_metric_id d = metric_id m"
      by auto
    from Inr Cons.prems step self1
    have rest: "collect_loop self clock (Suc k) ms s1 = (r, self', s')"
      by simp
    from Cons.prems have dist: "distinct (map metric_id ms)" and fresh: "metric_id m \<notin> metric_id ` set ms"
      by simp_all
    note ih = Cons.IH [OF rest dist]
    have untouched: "samples_of m' s' = samples_of m' s"
      if "metric_id m' \<notin> metric_id ` set (m # ms)" for m'
    proof -
      from that have "samples_of m' s' = samples_of m' s1" using ih by simp
      moreover from that fk have "samples_of m' s1 = samples_of m' s"
        by (simp add: samples_of_snoc [OF rows])
      ultimately show ?thesis by simp
    qed
    have collected: "registry self (metric_type_label m') \<noteq> None
                     \<and> (\<exists>d'. samples_of m' s' = samples_of m' s @ [d'])"
      if ok: "r = Inr ()" and mem: "m' \<in> set (m # ms)" for m'
    proof (cases "metric_id m' = metric_id m")
      case True
      with fresh have "metric_id m' \<notin> metric_id ` set ms" by simp
      with ih have "samples_of m' s' = samples_of m' s1" by simp
      moreover from True fk have "samples_of m' s1 = samples_of m' s @ [d]"
        by (simp add: samples_of_snoc [OF rows])
      moreover from True mem fresh have "m' = m" by (metis imageI set_ConsD)
      ultimately show ?thesis using reg by auto
    next
      case False
      with mem have in_ms: "m' \<in> set ms" by auto
      from False fk have "samples_of m' s1 = samples_of m' s"
        by (simp add: samples_of_snoc [OF rows])
      with ih ok in_ms show ?thesis by auto
    qed
    from untouched collected show ?thesis by blast
  qed
qed

text \<open>A run over \<open>pre @ rest\<close> is the run over \<open>pre\<close>, then, unless that raised, the
  run over \<open>rest\<close> from the state it left; a run over one metric is its collection.\<close>

lemma collect_loop_append:
  "collect_loop self clock k (pre @ rest) s =
     (case collect_loop self clock k pre s of
        (Inl e, self1, s1) \<Rightarrow> (Inl e, self1, s1)
      | (Inr u, self1, s1) \<Rightarrow> collect_loop self1 clock (k + length pre) rest s1)"
proof (induction pre arbitrary: self k s)
  case Nil
  then show ?case by simp
next
  case (Cons m pre)
  have idx: "Suc k + length pre = k + length (m # pre)"
    by simp
  obtain r1 self1 s1 where step: "collect_metric m self (clock k) s = (r1, self1, s1)"
    by (cases "collect_metric m self (clock k) s") auto
  show ?case
  proof (cases r1)
    case (Inl e)
    with step show ?thesis by simp
  next
    case (Inr u)
    with step have "collect_loop self clock k ((m # pre) @ rest) s
                    = collect_loop self1 clock (Suc k) (pre @ rest) s1"
      by simp
    also have "\<dots> = (case collect_loop self1 clock (Suc k) pre s1 of
                         (Inl e, self2, s2) \<Rightarrow> (Inl e, self2, s2)
                       | (Inr u, self2, s2) \<Rightarrow>
                           collect_loop self2 clock (k + length (m # pre)) rest s2)"
      unfolding idx [symmetric] by (rule Cons.IH)
    also from Inr step have "collect_loop self1 clock (Suc k) pre s1
                    = collect_loop self clock k (m # pre) s"
      by simp
    finally show ?thesis .
  qed
qed


text \<open>Every run collects a prefix of its list without raising and stops there: at the end
  of the list, or at the first metric whose collection raises.\<close>

lemma collect_loop_split:
  assumes "collect_loop self clock k ms s = (r, self', s')"
  shows "\<exists>n. n \<le> length ms
           \<and> collect_loop self clock k (take n ms) s = (Inr (), self, s')
           \<and> (r = Inr () \<and> n = length ms
                \<or> (\<exists>e. r = Inl e \<and> n < length ms
                       \<and> collect_metric (ms ! n) self (clock (k + n)) s' = (Inl e, self, s')))"
  using assms
proof (induction ms arbitrary: k s)
  case Nil
  then show ?case by simp
next
  case (Cons m ms)
  obtain r1 self1 s1 where step: "collect_metric m self (clock k) s = (r1, self1, s1)"
    by (cases "collect_metric m self (clock k) s") auto
  note st = collect_metric_step [OF step]
  then have self1: "self1 = self" by simp
  show ?case
  proof (cases r1)
    case (Inl e)
    with st have "s1 = s" by simp
    with Inl step self1 Cons.prems
    have "r = Inl e" and "s' = s" and "collect_metric m self (clock k) s = (Inl e, self, s)"
      by simp_all
    then have "0 \<le> length (m # ms)
           \<and> collect_loop self clock k (take 0 (m # ms)) s = (Inr (), self, s')
           \<and> (r = Inr () \<and> 0 = length (m # ms)
                \<or> (\<exists>e. r = Inl e \<and> 0 < length (m # ms)
                       \<and> collect_metric ((m # ms) ! 0) self (clock (k + 0)) s'
                          = (Inl e, self, s')))"
      by simp
    then show ?thesis by blast
  next
    case (Inr u)
    with Cons.prems step self1
    have rest: "collect_loop self clock (Suc k) ms s1 = (r, self', s')"
      by simp
    from Cons.IH [OF rest] obtain n where
      n: "n \<le> length ms"
      and pre: "collect_loop self clock (Suc k) (take n ms) s1 = (Inr (), self, s')"
      and fin: "r = Inr () \<and> n = length ms
                \<or> (\<exists>e. r = Inl e \<and> n < length ms
                       \<and> collect_metric (ms ! n) self (clock (Suc k + n)) s' = (Inl e, self, s'))"
      by blast
    from Inr step self1 pre
    have pre': "collect_loop self clock k (take (Suc n) (m # ms)) s = (Inr (), self, s')"
      by simp
    from fin have fin': "r = Inr () \<and> Suc n = length (m # ms)
                \<or> (\<exists>e. r = Inl e \<and> Suc n < length (m # ms)
                       \<and> collect_metric ((m # ms) ! Suc n) self (clock (k + Suc n)) s'
                          = (Inl e, self, s'))"
      by simp
    from n have "Suc n \<le> length (m # ms)" by simp
    with pre' fin' show ?thesis by blast
  qed
qed

lemma distinct_ids_filter:
  "distinct (map metric_id rows) \<Longrightarrow> distinct (map metric_id (filter P rows))"
  by (simp add: distinct_map_filter)

lemma paused_id_not_collected:
  assumes "distinct (map metric_id rows)" and "m \<in> set rows" and "\<not> P m"
  shows "metric_id m \<notin> metric_id ` set (filter P rows)"
proof
  assume "metric_id m \<in> metric_id ` set (filter P rows)"
  then obtain x where x: "x \<in> set rows" "P x" "metric_id x = metric_id m"
    by auto
  from assms(1) have "inj_on metric_id (set rows)"
    by (simp add: distinct_map)
  with x assms(2) have "x = m"
    by (auto dest: inj_onD)
  with x assms(3) show False by simp
qed

text \<open>
  C1, as the code has it. Let the primary keys of the \<^verbatim>\<open>Metric\<close> rows be distinct.
  \<^verbatim>\<open>collect_metrics()\<close> collects the metrics with \<^verbatim>\<open>do_collect\<close> true in the
  order of the query, up to the first one whose collection raises: all of them when the run
  returns, the first \<open>n\<close> of them when it raises at the metric in position \<open>n\<close>. Every metric
  collected before that point has a registered type label and exactly one sample more than
  before the call (its old samples, then the new one); the metric that raised and the
  metrics after it have exactly the samples they had; and every metric with
  \<^verbatim>\<open>do_collect\<close> false has exactly the samples it had.
\<close>

theorem collect_metrics_effect:
  assumes pk: "distinct (map metric_id (metric_rows s))"
      and run: "collect_metrics self clock s = (r, self', s')"
  shows "\<exists>n. n \<le> length (Metric_objects_filter_do_collect s)
           \<and> (r = Inr () \<and> n = length (Metric_objects_filter_do_collect s)
                \<or> (\<exists>e. r = Inl e \<and> n < length (Metric_objects_filter_do_collect s)
                       \<and> collect_metric (Metric_objects_filter_do_collect s ! n) self (clock n) s'
                          = (Inl e, self, s')))
           \<and> (\<forall>m \<in> set (take n (Metric_objects_filter_do_collect s)).
                  registry self (metric_type_label m) \<noteq> None
                  \<and> (\<exists>d. samples_of m s' = samples_of m s @ [d]))
           \<and> (\<forall>m \<in> set (drop n (Metric_objects_filter_do_collect s)).
                  samples_of m s' = samples_of m s)
           \<and> (\<forall>m \<in> set (metric_rows s). \<not> do_collect m \<longrightarrow> samples_of m s' = samples_of m s)"
proof -
  let ?ms = "Metric_objects_filter_do_collect s"
  from run have loop: "collect_loop self clock 0 ?ms s = (r, self', s')"
    by (simp add: collect_metrics_def)
  from collect_loop_split [OF loop] obtain n where
    n: "n \<le> length ?ms"
    and pre: "collect_loop self clock 0 (take n ?ms) s = (Inr (), self, s')"
    and fin: "r = Inr () \<and> n = length ?ms
              \<or> (\<exists>e. r = Inl e \<and> n < length ?ms
                     \<and> collect_metric (?ms ! n) self (clock n) s' = (Inl e, self, s'))"
    by auto
  from pk have dist: "distinct (map metric_id ?ms)"
    by (simp add: Metric_objects_filter_do_collect_def distinct_ids_filter)
  then have "distinct (map metric_id (take n ?ms @ drop n ?ms))"
    by simp
  then have dist_pre: "distinct (map metric_id (take n ?ms))"
    and apart: "\<forall>m \<in> set (drop n ?ms). metric_id m \<notin> metric_id ` set (take n ?ms)"
    unfolding map_append distinct_append by auto
  note eff = collect_loop_samples [OF pre dist_pre]
  from eff have reached: "\<forall>m \<in> set (take n ?ms). registry self (metric_type_label m) \<noteq> None
                  \<and> (\<exists>d. samples_of m s' = samples_of m s @ [d])"
    by blast
  from eff apart have skipped: "\<forall>m \<in> set (drop n ?ms). samples_of m s' = samples_of m s"
    by blast
  have paused: "\<forall>m \<in> set (metric_rows s). \<not> do_collect m \<longrightarrow> samples_of m s' = samples_of m s"
  proof (intro ballI impI)
    fix m assume row: "m \<in> set (metric_rows s)" and off: "\<not> do_collect m"
    from paused_id_not_collected [where P = do_collect, OF pk row off]
    have "metric_id m \<notin> metric_id ` set ?ms"
      by (simp add: Metric_objects_filter_do_collect_def)
    moreover have "set (take n ?ms) \<subseteq> set ?ms"
      by (rule set_take_subset)
    ultimately have "metric_id m \<notin> metric_id ` set (take n ?ms)"
      by blast
    with eff show "samples_of m s' = samples_of m s"
      by simp
  qed
  from n fin reached skipped paused show ?thesis
    by blast
qed

lemma mixed_db_run:
  "collect_metrics example_manager example_clock mixed_db
   = (Inl (TypeError '''NoneType' object is not callable''), example_manager,
      mixed_db\<lparr>sample_rows := [\<lparr>sample_id = 1, sample_metric_id = 1,
                                   utc_timestamp = 1000, sample_value = 5\<rparr>],
                sample_seq := 2\<rparr>)"
  by (simp add: collect_metrics_def Metric_objects_filter_do_collect_def collect_metric_def
      get_metric_type_def DatumSample_objects_create_def Let_def example_manager_def
      example_clock_def mixed_db_def users_metric_def orphan_metric_def paused_metric_def
      visitors_metric_def constant_5_def)

theorem collect_metrics_effect_witness:
  "distinct (map metric_id (metric_rows mixed_db))
   \<and> collect_metrics example_manager example_clock mixed_db
       = (Inl (TypeError '''NoneType' object is not callable''), example_manager,
          mixed_db\<lparr>sample_rows := [\<lparr>sample_id = 1, sample_metric_id = 1,
                                       utc_timestamp = 1000, sample_value = 5\<rparr>],
                    sample_seq := 2\<rparr>)
   \<and> Metric_objects_filter_do_collect mixed_db = [users_metric, orphan_metric, visitors_metric]
   \<and> (\<exists>n. n \<le> length (Metric_objects_filter_do_collect mixed_db)
          \<and> (\<forall>m \<in> set (take n (Metric_objects_filter_do_collect mixed_db)).
                 registry example_manager (metric_type_label m) \<noteq> None
                 \<and> (\<exists>d. samples_of m
                            (mixed_db\<lparr>sample_rows := [\<lparr>sample_id = 1, sample_metric_id = 1,
                                         utc_timestamp = 1000, sample_value = 5\<rparr>],
                                      sample_seq := 2\<rparr>) = samples_of m mixed_db @ [d]))
          \<and> (\<forall>m \<in> set (drop n (Metric_objects_filter_do_collect mixed_db)).
                 samples_of m
                   (mixed_db\<lparr>sample_rows := [\<lparr>sample_id = 1, sample_metric_id = 1,
                                utc_timestamp = 1000, sample_value = 5\<rparr>],
                             sample_seq := 2\<rparr>) = samples_of m mixed_db))
   \<and> samples_of paused_metric
        (mixed_db\<lparr>sample_rows := [\<lparr>sample_id = 1, sample_metric_id = 1,
                     utc_timestamp = 1000, sample_value = 5\<rparr>],
                  sample_seq := 2\<rparr>) = samples_of paused_metric mixed_db"
proof -
  have pk: "distinct (map metric_id (metric_rows mixed_db))"
    by (simp add: mixed_db_def users_metric_def orphan_metric_def paused_metric_def
        visitors_metric_def)
  have ms: "Metric_objects_filter_do_collect mixed_db
            = [users_metric, orphan_metric, visitors_metric]"
    by (simp add: Metric_objects_filter_do_collect_def mixed_db_def users_metric_def
        orphan_metric_def paused_metric_def visitors_metric_def)
  have row: "paused_metric \<in> set (metric_rows mixed_db)" and off: "\<not> do_collect paused_metric"
    by (simp_all add: mixed_db_def paused_metric_def)
  from collect_metrics_effect [OF pk mixed_db_run] row off pk ms mixed_db_run
  show ?thesis by blast
qed

text \<open>
  C1 as stated fails when an earlier metric of the run raises. The rows are in the order
  of their primary keys; the first one has a label that is not registered, the exception
  leaves the loop, and the second one, which has \<^verbatim>\<open>do_collect\<close> true and a
  registered label, has no sample after the run, as before it.
\<close>

theorem collect_metrics_aborted_counterexample:
  "metric_rows orphan_first_db = [stale_metric, signups_metric]
   \<and> map metric_id (metric_rows orphan_first_db) = [1, 2]
   \<and> do_collect signups_metric
   \<and> registry example_manager (metric_type_label signups_metric) = Some constant_5
   \<and> fst (collect_metrics example_manager example_clock orphan_first_db)
       = Inl (TypeError '''NoneType' object is not callable'')
   \<and> samples_of signups_metric orphan_first_db = []
   \<and> samples_of signups_metric
        (snd (snd (collect_metrics example_manager example_clock orphan_first_db))) = []"
  by (simp add: collect_metrics_def Metric_objects_filter_do_collect_def collect_metric_def
      get_metric_type_def samples_of_def example_manager_def orphan_first_db_def
      stale_metric_def signups_metric_def)

text \<open>
  C6, as the code has it. Collecting a metric whose type label is not registered raises
  and leaves the store and the manager as they were. In \<^verbatim>\<open>collect_metrics()\<close> the
  exception is not caught: when the metrics before it in the run were collected
  without raising, the run raises at this metric and ends in the state those left. With
  distinct primary keys, the metrics before it have one sample more, and this metric and
  the metrics after it have the samples they had.
\<close>

theorem collect_unregistered_aborts_run:
  assumes unreg: "registry self (metric_type_label m) = None"
      and pk: "distinct (map metric_id (metric_rows s))"
      and order: "Metric_objects_filter_do_collect s = pre @ m # post"
      and before: "collect_loop self clock 0 pre s = (Inr (), self1, s1)"
  shows "(\<exists>e. collect_metric m self now s0 = (Inl e, self, s0))
         \<and> (\<exists>e. collect_metrics self clock s = (Inl e, self, s1))
         \<and> (\<forall>m' \<in> set pre. \<exists>d. samples_of m' s1 = samples_of m' s @ [d])
         \<and> (\<forall>m' \<in> set (m # post). samples_of m' s1 = samples_of m' s)"
proof -
  have single: "\<exists>e. collect_metric m self now' s' = (Inl e, self, s')" for now' s'
    using unreg by (simp add: collect_metric_def get_metric_type_def)
  from collect_loop_manager [OF before] have same: "self1 = self"
    by simp
  from single [of "clock (0 + length pre)" s1] obtain e where
    "collect_metric m self (clock (0 + length pre)) s1 = (Inl e, self, s1)"
    by blast
  with before same have "collect_loop self clock 0 (pre @ m # post) s = (Inl e, self, s1)"
    by (simp add: collect_loop_append)
  with order have run: "collect_metrics self clock s = (Inl e, self, s1)"
    by (simp add: collect_metrics_def)
  from pk have "distinct (map metric_id (Metric_objects_filter_do_collect s))"
    by (simp add: Metric_objects_filter_do_collect_def distinct_ids_filter)
  with order have dist: "distinct (map metric_id pre)"
    and apart: "\<forall>m' \<in> set (m # post). metric_id m' \<notin> metric_id ` set pre"
    by auto
  note eff = collect_loop_samples [OF before dist]
  from eff have "\<forall>m' \<in> set pre. \<exists>d. samples_of m' s1 = samples_of m' s @ [d]"
    by blast
  moreover from eff apart have "\<forall>m' \<in> set (m # post). samples_of m' s1 = samples_of m' s"
    by blast
  ultimately show ?thesis using single run by blast
qed

lemma orphan_middle_prefix:
  "collect_loop example_manager example_clock 0 [users_metric] orphan_middle_db
   = (Inr (), example_manager,
      orphan_middle_db\<lparr>sample_rows := [\<lparr>sample_id = 1, sample_metric_id = 1,
                                           utc_timestamp = 1000, sample_value = 5\<rparr>],
                        sample_seq := 2\<rparr>)"
  by (simp add: collect_metric_def get_metric_type_def DatumSample_objects_create_def Let_def
      example_manager_def example_clock_def orphan_middle_db_def users_metric_def
      constant_5_def)

theorem collect_unregistered_aborts_run_witness:
  "registry example_manager (metric_type_label orphan_metric) = None
   \<and> distinct (map metric_id (metric_rows orphan_middle_db))
   \<and> Metric_objects_filter_do_collect orphan_middle_db
       = [users_metric] @ orphan_metric # [visitors_metric]
   \<and> (\<exists>e. collect_metric orphan_metric example_manager 1001 orphan_middle_db
            = (Inl e, example_manager, orphan_middle_db))
   \<and> (\<exists>e. collect_metrics example_manager example_clock orphan_middle_db
            = (Inl e, example_manager,
               orphan_middle_db\<lparr>sample_rows := [\<lparr>sample_id = 1, sample_metric_id = 1,
                                                   utc_timestamp = 1000, sample_value = 5\<rparr>],
                                 sample_seq := 2\<rparr>))
   \<and> samples_of visitors_metric
        (orphan_middle_db\<lparr>sample_rows := [\<lparr>sample_id = 1, sample_metric_id = 1,
                                             utc_timestamp = 1000, sample_value = 5\<rparr>],
                          sample_seq := 2\<rparr>) = samples_of visitors_metric orphan_middle_db"
proof -
  have unreg: "registry example_manager (metric_type_label orphan_metric) = None"
    by (simp add: example_manager_def orphan_metric_def)
  have pk: "distinct (map metric_id (metric_rows orphan_middle_db))"
    by (simp add: orphan_middle_db_def users_metric_def orphan_metric_def visitors_metric_def)
  have order: "Metric_objects_filter_do_collect orphan_middle_db
       = [users_metric] @ orphan_metric # [visitors_metric]"
    by (simp add: Metric_objects_filter_do_collect_def orphan_middle_db_def users_metric_def
        orphan_metric_def visitors_metric_def)
  from collect_unregistered_aborts_run
    [OF unreg pk order orphan_middle_prefix, of 1001 orphan_middle_db]
    unreg pk order
  show ?thesis by simp
qed

text \<open>
  C6 as stated fails: the exception is the \<^verbatim>\<open>TypeError\<close> of calling
  \<^verbatim>\<open>None\<close>, and it is not confined to the metric that raised it. The metric after
  the orphan gets no sample in the run, and gets one in the same store without the orphan.
\<close>

theorem collect_unregistered_counterexample:
  "collect_metric orphan_metric example_manager 1001 orphan_middle_db
     = (Inl (TypeError '''NoneType' object is not callable''), example_manager, orphan_middle_db)
   \<and> fst (collect_metrics example_manager example_clock orphan_middle_db)
     = Inl (TypeError '''NoneType' object is not callable'')
   \<and> samples_of visitors_metric
        (snd (snd (collect_metrics example_manager example_clock orphan_middle_db))) = []
   \<and> samples_of visitors_metric
        (snd (snd (collect_metrics example_manager example_clock no_orphan_db)))
     = [\<lparr>sample_id = 2, sample_metric_id = 4, utc_timestamp = 1001, sample_value = 5\<rparr>]"
  by (simp add: collect_metrics_def Metric_objects_filter_do_collect_def collect_metric_def
      get_metric_type_def DatumSample_objects_create_def Let_def samples_of_def
      example_manager_def example_clock_def orphan_middle_db_def no_orphan_db_def
      users_metric_def orphan_metric_def visitors_metric_def constant_5_def)

subsection \<open>A created metric in the next run\<close>





end
